theory Spec2Isabelle
  imports Complex_Main
begin

section \<open>Data model (prisma/schema.prisma)\<close>

text \<open>
  The enums of the schema, and the columns of each table that the ticket controllers,
  the comment controller and the ownership middleware read or write. Identifiers are
  the UUID strings of the schema; instants are milliseconds since the epoch. A nullable
  column is an \<open>option\<close>. A \<open>Float\<close> column holds a \<open>real\<close>: the rounding of double
  precision is not modelled. The primary keys of the history and work log rows, and
  \<open>actualizadoEn\<close>, which the client sets by itself on every update, are left out.
\<close>

datatype RolUsuario = ADMIN | JEFE_DEPARTAMENTO | AGENTE | CLIENTE

datatype EstadoTicket = ABIERTO | EN_PROGRESO | EN_ESPERA | RESUELTO | CERRADO | CANCELADO

datatype PrioridadTicket = BAJA | MEDIA | ALTA | URGENTE

record Usuario =
  u_id :: string
  u_email :: string
  u_nombreCompleto :: string
  u_rol :: RolUsuario
  u_estaActivo :: bool
  u_departamentoId :: "string option"

record Ticket =
  t_id :: string
  t_numeroTicket :: string
  t_asunto :: string
  t_descripcion :: string
  t_estado :: EstadoTicket
  t_prioridad :: PrioridadTicket
  t_horasReales :: "real option"
  t_fechaResolucion :: "nat option"
  t_fechaCierre :: "nat option"
  t_creadoEn :: nat
  t_creadorId :: string
  t_agenteId :: "string option"
  t_departamentoId :: string
  t_categoriaId :: string

record Comentario =
  c_id :: string
  c_contenido :: string
  c_esInterno :: bool
  c_creadoEn :: nat
  c_autorId :: string
  c_ticketId :: string

record HistorialEstado =
  h_estadoAnterior :: "EstadoTicket option"
  h_estadoNuevo :: EstadoTicket
  h_comentario :: "string option"
  h_cambiadoEn :: nat
  h_ticketId :: string

record RegistroTrabajo =
  r_descripcion :: string
  r_horas :: real
  r_fechaTrabajo :: nat
  r_agenteId :: string
  r_ticketId :: string

text \<open>
  The database behind the Prisma client: one list of rows per table, in insertion
  order. \<open>departamentos\<close> and \<open>categorias\<close> hold the primary keys only (the tickets
  refer to them).
\<close>

record prisma =
  usuarios :: "Usuario list"
  departamentos :: "string list"
  categorias :: "string list"
  tickets :: "Ticket list"
  comentarios :: "Comentario list"
  historialEstados :: "HistorialEstado list"
  registrosTrabajo :: "RegistroTrabajo list"

text \<open>
  What a handler sends when it does not succeed: the HTTP status of the response.
  \<open>E500\<close> is the response of a handler's \<open>catch\<close> block, so every exception thrown
  inside the \<open>try\<close> is this value.
\<close>

datatype http_error = E400 | E403 | E404 | E500

section \<open>Strings\<close>

fun startsWith :: "string \<Rightarrow> string \<Rightarrow> bool" where
  "startsWith s [] = True"
| "startsWith [] (c # p) = False"
| "startsWith (x # s) (c # p) = (x = c \<and> startsWith s p)"

fun contains :: "string \<Rightarrow> string \<Rightarrow> bool" where
  "contains [] p = (p = [])"
| "contains (x # s) p = (startsWith (x # s) p \<or> contains s p)"

definition minuscula :: "char \<Rightarrow> char" where
  "minuscula c =
     (if of_char c \<ge> (65::nat) \<and> of_char c \<le> (90::nat) then char_of (of_char c + (32::nat)) else c)"

text \<open>\<open>{ contains: buscar, mode: 'insensitive' }\<close>, for ASCII letters.\<close>

definition contains_insensitive :: "string \<Rightarrow> string \<Rightarrow> bool" where
  "contains_insensitive s p = contains (map minuscula s) (map minuscula p)"

definition esHex :: "char \<Rightarrow> bool" where
  "esHex c = (c \<in> set ''0123456789abcdefABCDEF'')"

text \<open>
  express-validator's \<open>isUUID()\<close>: eight, four, four, four and twelve hexadecimal
  digits, separated by hyphens.
\<close>

definition isUUID :: "string \<Rightarrow> bool" where
  "isUUID s =
     (length s = 36 \<and>
      list_all esHex (take 8 s) \<and> take 1 (drop 8 s) = ''-'' \<and>
      list_all esHex (take 4 (drop 9 s)) \<and> take 1 (drop 13 s) = ''-'' \<and>
      list_all esHex (take 4 (drop 14 s)) \<and> take 1 (drop 18 s) = ''-'' \<and>
      list_all esHex (take 4 (drop 19 s)) \<and> take 1 (drop 23 s) = ''-'' \<and>
      list_all esHex (drop 24 s))"

text \<open>JavaScript's truthiness of a string: only the empty string is falsy.\<close>

definition truthy :: "string \<Rightarrow> bool" where
  "truthy s = (s \<noteq> [])"

section \<open>Reading tickets\<close>

definition ticket_findUnique :: "prisma \<Rightarrow> string \<Rightarrow> Ticket option" where
  "ticket_findUnique d i = find (\<lambda>t. t_id t = i) (tickets d)"

section \<open>Middleware (middleware/auth.js)\<close>

text \<open>
  \<open>authorize(rolesPermitidos)\<close>: \<open>None\<close> is \<open>next()\<close>. Every router mounts
  \<open>authenticate\<close> first, so \<open>req.usuario\<close> is set when \<open>authorize\<close> runs.
\<close>

definition authorize :: "RolUsuario list \<Rightarrow> Usuario \<Rightarrow> http_error option" where
  "authorize rolesPermitidos usuario =
     (if u_rol usuario \<notin> set rolesPermitidos then Some E403 else None)"

text \<open>The check after the \<open>switch\<close>: \<open>if (!resource) return 404\<close>, else \<open>next()\<close>.\<close>

definition recurso_encontrado :: "Ticket option \<Rightarrow> http_error + Ticket" where
  "recurso_encontrado resource =
     (case resource of None \<Rightarrow> Inl E404 | Some r \<Rightarrow> Inr r)"

text \<open>
  \<open>verifyOwnership(resourceType)\<close>: \<open>Inr r\<close> is \<open>req.resource = r; next()\<close>. The
  role branches read a field of \<open>resource\<close> before the check for a missing record;
  on a missing record (\<open>null\<close>) the read throws a TypeError, which the \<open>catch\<close> block
  answers with 500.
\<close>

definition verifyOwnership :: "string \<Rightarrow> Usuario \<Rightarrow> string \<Rightarrow> prisma \<Rightarrow> http_error + Ticket" where
  "verifyOwnership resourceType usuario i d =
     (if resourceType = ''ticket'' then
        (let resource = ticket_findUnique d i in
         if u_rol usuario = ADMIN then recurso_encontrado resource
         else if u_rol usuario = JEFE_DEPARTAMENTO then
           (case resource of
              None \<Rightarrow> Inl E500
            | Some r \<Rightarrow>
                if Some (t_departamentoId r) \<noteq> u_departamentoId usuario then Inl E403
                else recurso_encontrado resource)
         else if u_rol usuario = AGENTE then
           (case resource of
              None \<Rightarrow> Inl E500
            | Some r \<Rightarrow>
                if t_agenteId r \<noteq> Some (u_id usuario) then Inl E403
                else recurso_encontrado resource)
         else
           (case resource of
              None \<Rightarrow> Inl E500
            | Some r \<Rightarrow>
                if t_creadorId r \<noteq> u_id usuario then Inl E403
                else recurso_encontrado resource))
      else Inl E400)"

section \<open>Listing tickets (obtenerTickets)\<close>

text \<open>
  The query string after \<open>ticketFiltersValidation\<close>: \<open>estado\<close> and \<open>prioridad\<close> are
  values of their enums, \<open>page\<close> and \<open>limit\<close> are integers.
\<close>

record ticket_query =
  q_page :: "nat option"
  q_limit :: "nat option"
  q_estado :: "EstadoTicket option"
  q_prioridad :: "PrioridadTicket option"
  q_departamentoId :: "string option"
  q_categoriaId :: "string option"
  q_agenteId :: "string option"
  q_buscar :: "string option"

text \<open>
  The \<open>where\<close> object: \<open>None\<close> is a key that is not set. \<open>departamentoId\<close> can be
  set to \<open>null\<close> (a department head without a department): \<open>Some None\<close>.
\<close>

record ticket_where =
  w_creadorId :: "string option"
  w_agenteId :: "string option"
  w_departamentoId :: "string option option"
  w_estado :: "EstadoTicket option"
  w_prioridad :: "PrioridadTicket option"
  w_categoriaId :: "string option"
  w_OR :: "string option"

definition where_vacio :: ticket_where where
  "where_vacio = \<lparr> w_creadorId = None, w_agenteId = None, w_departamentoId = None,
     w_estado = None, w_prioridad = None, w_categoriaId = None, w_OR = None \<rparr>"

text \<open>\<open>// Filtros por rol de usuario\<close>\<close>

definition filtros_por_rol :: "Usuario \<Rightarrow> ticket_where \<Rightarrow> ticket_where" where
  "filtros_por_rol usuario w =
     (if u_rol usuario = CLIENTE then w\<lparr> w_creadorId := Some (u_id usuario) \<rparr>
      else if u_rol usuario = AGENTE then w\<lparr> w_agenteId := Some (u_id usuario) \<rparr>
      else if u_rol usuario = JEFE_DEPARTAMENTO then
        w\<lparr> w_departamentoId := Some (u_departamentoId usuario) \<rparr>
      else w)"

definition poner :: "'a option \<Rightarrow> 'a option \<Rightarrow> 'a option" where
  "poner q actual = (case q of None \<Rightarrow> actual | Some v \<Rightarrow> Some v)"

definition poner_cadena :: "string option \<Rightarrow> string option \<Rightarrow> string option" where
  "poner_cadena q actual =
     (case q of None \<Rightarrow> actual | Some v \<Rightarrow> if truthy v then Some v else actual)"

text \<open>\<open>// Aplicar filtros adicionales\<close> and \<open>// Busqueda por texto\<close>\<close>

definition filtros_adicionales :: "ticket_query \<Rightarrow> ticket_where \<Rightarrow> ticket_where" where
  "filtros_adicionales q w =
     w\<lparr> w_estado := poner (q_estado q) (w_estado w),
        w_prioridad := poner (q_prioridad q) (w_prioridad w),
        w_departamentoId :=
          (case q_departamentoId q of
             None \<Rightarrow> w_departamentoId w
           | Some v \<Rightarrow> if truthy v then Some (Some v) else w_departamentoId w),
        w_categoriaId := poner_cadena (q_categoriaId q) (w_categoriaId w),
        w_agenteId := poner_cadena (q_agenteId q) (w_agenteId w),
        w_OR := poner_cadena (q_buscar q) (w_OR w) \<rparr>"

definition construir_where :: "Usuario \<Rightarrow> ticket_query \<Rightarrow> ticket_where" where
  "construir_where usuario q = filtros_adicionales q (filtros_por_rol usuario where_vacio)"

text \<open>
  Which rows a \<open>where\<close> object selects: every key that is set must match.
  \<open>departamentoId\<close> is a required column, so no row matches \<open>null\<close> there.
\<close>

definition cumple :: "ticket_where \<Rightarrow> Ticket \<Rightarrow> bool" where
  "cumple w t =
     ((case w_creadorId w of None \<Rightarrow> True | Some v \<Rightarrow> t_creadorId t = v) \<and>
      (case w_agenteId w of None \<Rightarrow> True | Some v \<Rightarrow> t_agenteId t = Some v) \<and>
      (case w_departamentoId w of
         None \<Rightarrow> True | Some None \<Rightarrow> False | Some (Some v) \<Rightarrow> t_departamentoId t = v) \<and>
      (case w_estado w of None \<Rightarrow> True | Some v \<Rightarrow> t_estado t = v) \<and>
      (case w_prioridad w of None \<Rightarrow> True | Some v \<Rightarrow> t_prioridad t = v) \<and>
      (case w_categoriaId w of None \<Rightarrow> True | Some v \<Rightarrow> t_categoriaId t = v) \<and>
      (case w_OR w of
         None \<Rightarrow> True
       | Some v \<Rightarrow>
           contains_insensitive (t_numeroTicket t) v \<or>
           contains_insensitive (t_asunto t) v \<or>
           contains_insensitive (t_descripcion t) v))"

text \<open>\<open>orderBy\<close>: an insertion sort by the given order.\<close>

fun insertar :: "('a \<Rightarrow> 'a \<Rightarrow> bool) \<Rightarrow> 'a \<Rightarrow> 'a list \<Rightarrow> 'a list" where
  "insertar antes x [] = [x]"
| "insertar antes x (y # ys) = (if antes x y then x # y # ys else y # insertar antes x ys)"

fun ordenar :: "('a \<Rightarrow> 'a \<Rightarrow> bool) \<Rightarrow> 'a list \<Rightarrow> 'a list" where
  "ordenar antes [] = []"
| "ordenar antes (x # xs) = insertar antes x (ordenar antes xs)"

fun rango_prioridad :: "PrioridadTicket \<Rightarrow> nat" where
  "rango_prioridad BAJA = 0"
| "rango_prioridad MEDIA = 1"
| "rango_prioridad ALTA = 2"
| "rango_prioridad URGENTE = 3"

text \<open>\<open>orderBy: [{ prioridad: 'desc' }, { creadoEn: 'desc' }]\<close>\<close>

definition orden_tickets :: "Ticket \<Rightarrow> Ticket \<Rightarrow> bool" where
  "orden_tickets a b =
     (rango_prioridad (t_prioridad a) > rango_prioridad (t_prioridad b) \<or>
      (rango_prioridad (t_prioridad a) = rango_prioridad (t_prioridad b) \<and>
       t_creadoEn a \<ge> t_creadoEn b))"

definition ticket_findMany :: "prisma \<Rightarrow> ticket_where \<Rightarrow> nat \<Rightarrow> nat \<Rightarrow> Ticket list" where
  "ticket_findMany d w skip tk = take tk (drop skip (ordenar orden_tickets (filter (cumple w) (tickets d))))"

definition ticket_count :: "prisma \<Rightarrow> ticket_where \<Rightarrow> nat" where
  "ticket_count d w = length (filter (cumple w) (tickets d))"

text \<open>The handler: the page of tickets and the total (\<open>page = 1\<close>, \<open>limit = 20\<close> by default).\<close>

definition obtenerTickets :: "Usuario \<Rightarrow> ticket_query \<Rightarrow> prisma \<Rightarrow> Ticket list \<times> nat" where
  "obtenerTickets usuario q d =
     (let page = (case q_page q of None \<Rightarrow> 1 | Some p \<Rightarrow> p);
          limit = (case q_limit q of None \<Rightarrow> 20 | Some l \<Rightarrow> l);
          offset = (page - 1) * limit;
          w = construir_where usuario q
      in (ticket_findMany d w offset limit, ticket_count d w))"

definition opcional :: "('a \<Rightarrow> bool) \<Rightarrow> 'a option \<Rightarrow> bool" where
  "opcional p v = (case v of None \<Rightarrow> True | Some x \<Rightarrow> p x)"

definition ticketFiltersValidation :: "ticket_query \<Rightarrow> bool" where
  "ticketFiltersValidation q =
     (opcional isUUID (q_departamentoId q) \<and>
      opcional isUUID (q_categoriaId q) \<and>
      opcional isUUID (q_agenteId q) \<and>
      opcional (\<lambda>b. 1 \<le> length b \<and> length b \<le> 100) (q_buscar q) \<and>
      opcional (\<lambda>p. 1 \<le> p) (q_page q) \<and>
      opcional (\<lambda>l. 1 \<le> l \<and> l \<le> 100) (q_limit q))"

text \<open>\<open>GET /api/tickets\<close>\<close>

definition ruta_obtenerTickets :: "Usuario \<Rightarrow> ticket_query \<Rightarrow> prisma \<Rightarrow> http_error + (Ticket list \<times> nat)" where
  "ruta_obtenerTickets usuario q d =
     (if \<not> ticketFiltersValidation q then Inl E400 else Inr (obtenerTickets usuario q d))"

section \<open>Writing through the Prisma client\<close>

text \<open>
  The database of the model is always reachable. A write throws only for a missing
  record, a unique constraint or a foreign key; it is then \<open>None\<close>, and the handler's
  \<open>catch\<close> block answers 500.

  \<open>data\<close> of \<open>ticket.update\<close> and \<open>ticket.updateMany\<close>: \<open>None\<close> is a key that is
  not given. A number column takes a value or \<open>{ increment: x }\<close>; the client sends the
  increment to the database as one \<open>SET col = col + x\<close>, which leaves \<open>null\<close> as it is.
\<close>

datatype float_update = Asignar "real option" | Increment real

record ticket_data =
  d_asunto :: "string option"
  d_descripcion :: "string option"
  d_estado :: "EstadoTicket option"
  d_agenteId :: "string option option"
  d_horasReales :: "float_update option"
  d_fechaResolucion :: "nat option option"
  d_fechaCierre :: "nat option option"

definition sin_datos :: ticket_data where
  "sin_datos = \<lparr> d_asunto = None, d_descripcion = None, d_estado = None, d_agenteId = None,
     d_horasReales = None, d_fechaResolucion = None, d_fechaCierre = None \<rparr>"

definition aplicar_float :: "float_update \<Rightarrow> real option \<Rightarrow> real option" where
  "aplicar_float u actual =
     (case u of Asignar v \<Rightarrow> v | Increment x \<Rightarrow> map_option (\<lambda>h. h + x) actual)"

definition aplicar :: "ticket_data \<Rightarrow> Ticket \<Rightarrow> Ticket" where
  "aplicar dat t =
     t\<lparr> t_asunto := (case d_asunto dat of None \<Rightarrow> t_asunto t | Some v \<Rightarrow> v),
        t_descripcion := (case d_descripcion dat of None \<Rightarrow> t_descripcion t | Some v \<Rightarrow> v),
        t_estado := (case d_estado dat of None \<Rightarrow> t_estado t | Some v \<Rightarrow> v),
        t_agenteId := (case d_agenteId dat of None \<Rightarrow> t_agenteId t | Some v \<Rightarrow> v),
        t_horasReales :=
          (case d_horasReales dat of None \<Rightarrow> t_horasReales t | Some u \<Rightarrow> aplicar_float u (t_horasReales t)),
        t_fechaResolucion :=
          (case d_fechaResolucion dat of None \<Rightarrow> t_fechaResolucion t | Some v \<Rightarrow> v),
        t_fechaCierre := (case d_fechaCierre dat of None \<Rightarrow> t_fechaCierre t | Some v \<Rightarrow> v) \<rparr>"

definition existe_usuario :: "prisma \<Rightarrow> string \<Rightarrow> bool" where
  "existe_usuario d i = (find (\<lambda>u. u_id u = i) (usuarios d) \<noteq> None)"

text \<open>The foreign key of \<open>agenteId\<close>, when \<open>data\<close> sets it to a user.\<close>

definition agente_valido :: "prisma \<Rightarrow> ticket_data \<Rightarrow> bool" where
  "agente_valido d dat =
     (case d_agenteId dat of None \<Rightarrow> True | Some None \<Rightarrow> True | Some (Some a) \<Rightarrow> existe_usuario d a)"

text \<open>\<open>prisma.ticket.update({ where: { id }, data })\<close>: the updated row and the database.\<close>

definition ticket_update :: "prisma \<Rightarrow> string \<Rightarrow> ticket_data \<Rightarrow> (Ticket \<times> prisma) option" where
  "ticket_update d i dat =
     (case ticket_findUnique d i of
        None \<Rightarrow> None
      | Some t \<Rightarrow>
          if \<not> agente_valido d dat then None
          else Some (aplicar dat t,
                 d\<lparr> tickets := map (\<lambda>x. if t_id x = i then aplicar dat x else x) (tickets d) \<rparr>))"

text \<open>
  \<open>prisma.ticket.updateMany({ where, data })\<close>: the count and the database. Both
  callers set \<open>agenteId\<close> only to a user they have just read.
\<close>

definition ticket_updateMany :: "prisma \<Rightarrow> (Ticket \<Rightarrow> bool) \<Rightarrow> ticket_data \<Rightarrow> nat \<times> prisma" where
  "ticket_updateMany d sel dat =
     (length (filter sel (tickets d)),
      d\<lparr> tickets := map (\<lambda>x. if sel x then aplicar dat x else x) (tickets d) \<rparr>)"

text \<open>
  \<open>prisma.ticket.create\<close>: the primary key and \<open>numeroTicket\<close> are unique; the
  creator, the department and the category must exist.
\<close>

definition ticket_create :: "prisma \<Rightarrow> Ticket \<Rightarrow> prisma option" where
  "ticket_create d t =
     (if ticket_findUnique d (t_id t) \<noteq> None then None
      else if t_numeroTicket t \<in> set (map t_numeroTicket (tickets d)) then None
      else if \<not> existe_usuario d (t_creadorId t) then None
      else if t_departamentoId t \<notin> set (departamentos d) then None
      else if t_categoriaId t \<notin> set (categorias d) then None
      else Some (d\<lparr> tickets := tickets d @ [t] \<rparr>))"

definition historialEstado_create :: "prisma \<Rightarrow> HistorialEstado \<Rightarrow> prisma option" where
  "historialEstado_create d h =
     (if ticket_findUnique d (h_ticketId h) = None then None
      else Some (d\<lparr> historialEstados := historialEstados d @ [h] \<rparr>))"

definition registroTrabajo_create :: "prisma \<Rightarrow> RegistroTrabajo \<Rightarrow> prisma option" where
  "registroTrabajo_create d r =
     (if ticket_findUnique d (r_ticketId r) = None then None
      else if \<not> existe_usuario d (r_agenteId r) then None
      else Some (d\<lparr> registrosTrabajo := registrosTrabajo d @ [r] \<rparr>))"

section \<open>Ticket numbers (utils/helpers.js)\<close>

definition digito :: "nat \<Rightarrow> char" where
  "digito n = ''0123456789'' ! (n mod 10)"

text \<open>\<open>String(n)\<close> for a non-negative integer.\<close>

function cadena_de :: "nat \<Rightarrow> string" where
  "cadena_de n = (if n < 10 then [digito n] else cadena_de (n div 10) @ [digito n])"
  by pat_completeness auto
termination
  by (relation "measure id") auto

declare cadena_de.simps [simp del]

definition padStart :: "nat \<Rightarrow> char \<Rightarrow> string \<Rightarrow> string" where
  "padStart n c s = replicate (n - length s) c @ s"

definition esDigito :: "char \<Rightarrow> bool" where
  "esDigito c = (c \<in> set ''0123456789'')"

definition valorDigito :: "char \<Rightarrow> nat" where
  "valorDigito c = of_char c - 48"

text \<open>
  \<open>parseInt\<close> of a string that starts with decimal digits; \<open>None\<close> is \<open>NaN\<close>. Leading
  white space, a sign and a radix prefix are not modelled: the argument is the third
  segment of a stored ticket number, which this function wrote as digits.
\<close>

definition parseInt :: "string \<Rightarrow> nat option" where
  "parseInt s =
     (let ds = takeWhile esDigito s
      in if ds = [] then None else Some (foldl (\<lambda>a c. 10 * a + valorDigito c) 0 ds))"

fun split_por :: "char \<Rightarrow> string \<Rightarrow> string list" where
  "split_por c [] = [[]]"
| "split_por c (x # xs) =
     (if x = c then [] # split_por c xs
      else (case split_por c xs of [] \<Rightarrow> [[x]] | p # ps \<Rightarrow> (x # p) # ps))"

fun cadena_menor :: "string \<Rightarrow> string \<Rightarrow> bool" where
  "cadena_menor [] [] = False"
| "cadena_menor [] (y # ys) = True"
| "cadena_menor (x # xs) [] = False"
| "cadena_menor (x # xs) (y # ys) =
     ((of_char x :: nat) < of_char y \<or> (x = y \<and> cadena_menor xs ys))"

text \<open>
  \<open>findFirst({ where: { numeroTicket: { startsWith: prefix } }, orderBy: { numeroTicket: 'desc' } })\<close>:
  the greatest number with the prefix, in the order of the character codes.
\<close>

definition ultimoTicket :: "prisma \<Rightarrow> string \<Rightarrow> string option" where
  "ultimoTicket d prefix =
     foldl (\<lambda>m s. case m of None \<Rightarrow> Some s | Some u \<Rightarrow> if cadena_menor u s then Some s else Some u)
       None (filter (\<lambda>s. startsWith s prefix) (map t_numeroTicket (tickets d)))"

text \<open>
  \<open>generateTicketNumber\<close>, at the year \<open>getFullYear()\<close> and the month index
  \<open>getMonth()\<close> (0 to 11). \<open>siguiente\<close> is \<open>None\<close> for \<open>NaN\<close>. The \<open>catch\<close> block
  (a number \<open>TEMP-\<close> and six digits of the clock) runs only when the query throws,
  which the database of the model does not.
\<close>

definition generateTicketNumber :: "nat \<Rightarrow> nat \<Rightarrow> prisma \<Rightarrow> string" where
  "generateTicketNumber year month d =
     (let prefix = cadena_de year @ ''-'' @ padStart 2 (CHR ''0'') (cadena_de (month + 1)) @ ''-'';
          siguiente =
            (case ultimoTicket d prefix of
               None \<Rightarrow> Some 1
             | Some u \<Rightarrow>
                 (case drop 2 (split_por (CHR ''-'') u) of
                    [] \<Rightarrow> None
                  | ultimoNumero # _ \<Rightarrow> map_option (\<lambda>n. n + 1) (parseInt ultimoNumero)));
          numeroSecuencial =
            padStart 6 (CHR ''0'') (case siguiente of None \<Rightarrow> ''NaN'' | Some n \<Rightarrow> cadena_de n)
      in prefix @ numeroSecuencial)"

section \<open>Ticket handlers (controllers/ticketController.js)\<close>

text \<open>
  A handler takes the request (the authenticated user, the parameters, the body), the
  clock and the database, and gives back its response and the database it leaves:
  \<open>Inl\<close> the status of an error response, \<open>Inr\<close> the payload of a success. The
  statements of a handler are not in a transaction, so the database that comes with
  an error holds every write made before the failure. Notifications, which the
  handlers send inside a \<open>try\<close> of their own after the writes, are left out.
\<close>

record ticket_body =
  b_asunto :: string
  b_descripcion :: string
  b_prioridad :: "PrioridadTicket option"
  b_departamentoId :: string
  b_categoriaId :: string

definition ticketValidation_create :: "ticket_body \<Rightarrow> bool" where
  "ticketValidation_create body =
     (5 \<le> length (b_asunto body) \<and> length (b_asunto body) \<le> 200 \<and>
      10 \<le> length (b_descripcion body) \<and> length (b_descripcion body) \<le> 2000 \<and>
      isUUID (b_departamentoId body) \<and> isUUID (b_categoriaId body))"

text \<open>
  \<open>crearTicket\<close> from \<open>prisma.ticket.create\<close> on, with the number that
  \<open>generateTicketNumber\<close> returned. \<open>nuevoId\<close> is the UUID the new row gets.
\<close>

definition crearTicket_insertar ::
  "string \<Rightarrow> string \<Rightarrow> nat \<Rightarrow> Usuario \<Rightarrow> ticket_body \<Rightarrow> prisma \<Rightarrow> (http_error + Ticket) \<times> prisma" where
  "crearTicket_insertar numeroTicket nuevoId ahora usuario body d =
     (let ticket = \<lparr> t_id = nuevoId, t_numeroTicket = numeroTicket,
            t_asunto = b_asunto body, t_descripcion = b_descripcion body,
            t_estado = ABIERTO,
            t_prioridad = (case b_prioridad body of None \<Rightarrow> MEDIA | Some p \<Rightarrow> p),
            t_horasReales = None, t_fechaResolucion = None, t_fechaCierre = None,
            t_creadoEn = ahora, t_creadorId = u_id usuario, t_agenteId = None,
            t_departamentoId = b_departamentoId body, t_categoriaId = b_categoriaId body \<rparr>
      in case ticket_create d ticket of
           None \<Rightarrow> (Inl E500, d)
         | Some d1 \<Rightarrow>
             (case historialEstado_create d1
                     \<lparr> h_estadoAnterior = None, h_estadoNuevo = ABIERTO,
                       h_comentario = Some ''Ticket creado'', h_cambiadoEn = ahora,
                       h_ticketId = nuevoId \<rparr> of
                None \<Rightarrow> (Inl E500, d1)
              | Some d2 \<Rightarrow> (Inr ticket, d2)))"

text \<open>\<open>POST /api/tickets\<close>: the route has the validation and the handler only.\<close>

definition crearTicket ::
  "nat \<Rightarrow> nat \<Rightarrow> string \<Rightarrow> nat \<Rightarrow> Usuario \<Rightarrow> ticket_body \<Rightarrow> prisma \<Rightarrow> (http_error + Ticket) \<times> prisma" where
  "crearTicket year month nuevoId ahora usuario body d =
     (if \<not> ticketValidation_create body then (Inl E400, d)
      else crearTicket_insertar (generateTicketNumber year month d) nuevoId ahora usuario body d)"

record ticket_detalle =
  det_ticket :: Ticket
  det_comentarios :: "Comentario list"
  det_registrosTrabajo :: "RegistroTrabajo list"
  det_historialEstados :: "HistorialEstado list"

text \<open>
  \<open>obtenerTicketPorId\<close>: the ticket with its \<open>include\<close>d rows (comments by
  \<open>creadoEn\<close> ascending, work logs by \<open>fechaTrabajo\<close> and history by \<open>cambiadoEn\<close>
  descending).
\<close>

definition obtenerTicketPorId :: "string \<Rightarrow> prisma \<Rightarrow> http_error + ticket_detalle" where
  "obtenerTicketPorId i d =
     (case ticket_findUnique d i of
        None \<Rightarrow> Inl E404
      | Some ticket \<Rightarrow>
          Inr \<lparr> det_ticket = ticket,
                det_comentarios =
                  ordenar (\<lambda>a b. c_creadoEn a \<le> c_creadoEn b)
                    (filter (\<lambda>c. c_ticketId c = i) (comentarios d)),
                det_registrosTrabajo =
                  ordenar (\<lambda>a b. r_fechaTrabajo a \<ge> r_fechaTrabajo b)
                    (filter (\<lambda>r. r_ticketId r = i) (registrosTrabajo d)),
                det_historialEstados =
                  ordenar (\<lambda>a b. h_cambiadoEn a \<ge> h_cambiadoEn b)
                    (filter (\<lambda>h. h_ticketId h = i) (historialEstados d)) \<rparr>)"

text \<open>
  \<open>actualizarTicket\<close>: \<open>req.body\<close> is the \<open>data\<close> of the update as it came.
\<close>

definition actualizarTicket :: "string \<Rightarrow> ticket_data \<Rightarrow> prisma \<Rightarrow> (http_error + Ticket) \<times> prisma" where
  "actualizarTicket i updateData d =
     (case ticket_update d i updateData of
        None \<Rightarrow> (Inl E500, d)
      | Some (ticket, d1) \<Rightarrow> (Inr ticket, d1))"

text \<open>
  \<open>findFirst({ where: { id: agenteId, rol: { in: ['AGENTE', 'JEFE_DEPARTAMENTO'] }, estaActivo: true } })\<close>
\<close>

definition agente_findFirst :: "prisma \<Rightarrow> string \<Rightarrow> Usuario option" where
  "agente_findFirst d agenteId =
     find (\<lambda>u. u_id u = agenteId \<and> u_rol u \<in> set [AGENTE, JEFE_DEPARTAMENTO] \<and> u_estaActivo u)
       (usuarios d)"

text \<open>
  \<open>asignarTicket\<close>. \<open>ticket\<close> is the row after the update, so \<open>ticket.estado\<close> in
  the history entry is \<open>EN_PROGRESO\<close>.
\<close>

definition asignarTicket :: "string \<Rightarrow> string \<Rightarrow> nat \<Rightarrow> prisma \<Rightarrow> (http_error + Ticket) \<times> prisma" where
  "asignarTicket i agenteId ahora d =
     (case agente_findFirst d agenteId of
        None \<Rightarrow> (Inl E400, d)
      | Some agente \<Rightarrow>
          (case ticket_update d i
                  (sin_datos\<lparr> d_agenteId := Some (Some agenteId), d_estado := Some EN_PROGRESO \<rparr>) of
             None \<Rightarrow> (Inl E500, d)
           | Some (ticket, d1) \<Rightarrow>
               (case historialEstado_create d1
                       \<lparr> h_estadoAnterior =
                           Some (if t_estado ticket = EN_PROGRESO then ABIERTO else t_estado ticket),
                         h_estadoNuevo = EN_PROGRESO,
                         h_comentario = Some (''Ticket asignado a '' @ u_nombreCompleto agente),
                         h_cambiadoEn = ahora, h_ticketId = i \<rparr> of
                  None \<Rightarrow> (Inl E500, d1)
                | Some d2 \<Rightarrow> (Inr ticket, d2))))"

definition estadosValidos :: "(string \<times> EstadoTicket) list" where
  "estadosValidos =
     [(''ABIERTO'', ABIERTO), (''EN_PROGRESO'', EN_PROGRESO), (''EN_ESPERA'', EN_ESPERA),
      (''RESUELTO'', RESUELTO), (''CERRADO'', CERRADO), (''CANCELADO'', CANCELADO)]"

text \<open>
  The value of the enum that a string of the request names; \<open>None\<close> when
  \<open>estadosValidos.includes(estado)\<close> is false.
\<close>

definition estadoDe :: "string \<Rightarrow> EstadoTicket option" where
  "estadoDe s = map_of estadosValidos s"

text \<open>\<open>// Preparar datos de actualizacion\<close>, the same in both status handlers.\<close>

definition datos_estado :: "EstadoTicket \<Rightarrow> nat \<Rightarrow> ticket_data" where
  "datos_estado estado ahora =
     (if estado = RESUELTO then
        sin_datos\<lparr> d_estado := Some estado, d_fechaResolucion := Some (Some ahora) \<rparr>
      else if estado = CERRADO then
        sin_datos\<lparr> d_estado := Some estado, d_fechaCierre := Some (Some ahora) \<rparr>
      else sin_datos\<lparr> d_estado := Some estado \<rparr>)"

text \<open>\<open>comentario || `Estado cambiado a ${estado}`\<close>\<close>

definition comentario_o :: "string option \<Rightarrow> string \<Rightarrow> string" where
  "comentario_o comentario porDefecto =
     (case comentario of None \<Rightarrow> porDefecto | Some c \<Rightarrow> if truthy c then c else porDefecto)"

definition cambiarEstado ::
  "string \<Rightarrow> string \<Rightarrow> string option \<Rightarrow> nat \<Rightarrow> prisma \<Rightarrow> (http_error + Ticket) \<times> prisma" where
  "cambiarEstado i estado comentario ahora d =
     (case estadoDe estado of
        None \<Rightarrow> (Inl E400, d)
      | Some e \<Rightarrow>
          (case ticket_findUnique d i of
             None \<Rightarrow> (Inl E404, d)
           | Some ticketActual \<Rightarrow>
               (case ticket_update d i (datos_estado e ahora) of
                  None \<Rightarrow> (Inl E500, d)
                | Some (ticket, d1) \<Rightarrow>
                    (case historialEstado_create d1
                            \<lparr> h_estadoAnterior = Some (t_estado ticketActual),
                              h_estadoNuevo = e,
                              h_comentario =
                                Some (comentario_o comentario (''Estado cambiado a '' @ estado)),
                              h_cambiadoEn = ahora, h_ticketId = i \<rparr> of
                       None \<Rightarrow> (Inl E500, d1)
                     | Some d2 \<Rightarrow> (Inr ticket, d2)))))"

definition agregarRegistroTrabajo ::
  "string \<Rightarrow> Usuario \<Rightarrow> string \<Rightarrow> real \<Rightarrow> nat option \<Rightarrow> nat \<Rightarrow> prisma \<Rightarrow>
     (http_error + RegistroTrabajo) \<times> prisma" where
  "agregarRegistroTrabajo i usuario descripcion horas fechaTrabajo ahora d =
     (let registro = \<lparr> r_descripcion = descripcion, r_horas = horas,
            r_fechaTrabajo = (case fechaTrabajo of None \<Rightarrow> ahora | Some f \<Rightarrow> f),
            r_agenteId = u_id usuario, r_ticketId = i \<rparr>
      in case registroTrabajo_create d registro of
           None \<Rightarrow> (Inl E500, d)
         | Some d1 \<Rightarrow>
             (case ticket_update d1 i (sin_datos\<lparr> d_horasReales := Some (Increment horas) \<rparr>) of
                None \<Rightarrow> (Inl E500, d1)
              | Some (ticket, d2) \<Rightarrow> (Inr registro, d2)))"

text \<open>\<open>obtenerHistorial\<close>: \<open>orderBy: { cambiadoEn: 'desc' }\<close>\<close>

definition obtenerHistorial :: "string \<Rightarrow> prisma \<Rightarrow> HistorialEstado list" where
  "obtenerHistorial i d =
     ordenar (\<lambda>a b. h_cambiadoEn a \<ge> h_cambiadoEn b)
       (filter (\<lambda>h. h_ticketId h = i) (historialEstados d))"

text \<open>
  \<open>reabrirTicket\<close>: the update does not read the current status, and the history
  entry names \<open>CERRADO\<close> as the previous one.
\<close>

definition reabrirTicket :: "string \<Rightarrow> Usuario \<Rightarrow> nat \<Rightarrow> prisma \<Rightarrow> (http_error + Ticket) \<times> prisma" where
  "reabrirTicket i usuario ahora d =
     (case ticket_update d i
             (sin_datos\<lparr> d_estado := Some ABIERTO, d_fechaResolucion := Some None,
                d_fechaCierre := Some None \<rparr>) of
        None \<Rightarrow> (Inl E500, d)
      | Some (ticket, d1) \<Rightarrow>
          (case historialEstado_create d1
                  \<lparr> h_estadoAnterior = Some CERRADO, h_estadoNuevo = ABIERTO,
                    h_comentario = Some (''Ticket reabierto por '' @ u_nombreCompleto usuario),
                    h_cambiadoEn = ahora, h_ticketId = i \<rparr> of
             None \<Rightarrow> (Inl E500, d1)
           | Some d2 \<Rightarrow> (Inr ticket, d2)))"

text \<open>\<open>asignacionMasiva\<close>: the count of the rows that \<open>updateMany\<close> changed.\<close>

definition asignacionMasiva :: "string list \<Rightarrow> string \<Rightarrow> prisma \<Rightarrow> (http_error + nat) \<times> prisma" where
  "asignacionMasiva ticketIds agenteId d =
     (case agente_findFirst d agenteId of
        None \<Rightarrow> (Inl E400, d)
      | Some agente \<Rightarrow>
          (let (n, d1) = ticket_updateMany d
                 (\<lambda>t. t_id t \<in> set ticketIds \<and> t_estado t \<in> set [ABIERTO, EN_PROGRESO])
                 (sin_datos\<lparr> d_agenteId := Some (Some agenteId), d_estado := Some EN_PROGRESO \<rparr>)
           in (Inr n, d1)))"

text \<open>
  \<open>cambioEstadoMasivo\<close>. The handler does not check \<open>estado\<close> (the route does); a
  string that names no status makes \<open>updateMany\<close> throw.
\<close>

definition cambioEstadoMasivo :: "string list \<Rightarrow> string \<Rightarrow> nat \<Rightarrow> prisma \<Rightarrow> (http_error + nat) \<times> prisma" where
  "cambioEstadoMasivo ticketIds estado ahora d =
     (case estadoDe estado of
        None \<Rightarrow> (Inl E500, d)
      | Some e \<Rightarrow>
          (let (n, d1) = ticket_updateMany d (\<lambda>t. t_id t \<in> set ticketIds) (datos_estado e ahora)
           in (Inr n, d1)))"

section \<open>Comment handler (controllers/comentarioController.js)\<close>

text \<open>
  \<open>obtenerComentarioPorId\<close>. The comment comes with its ticket (a required
  relation).
\<close>

definition obtenerComentarioPorId :: "string \<Rightarrow> Usuario \<Rightarrow> prisma \<Rightarrow> http_error + Comentario" where
  "obtenerComentarioPorId i usuario d =
     (case find (\<lambda>c. c_id c = i) (comentarios d) of
        None \<Rightarrow> Inl E404
      | Some comentario \<Rightarrow>
          (case ticket_findUnique d (c_ticketId comentario) of
             None \<Rightarrow> Inl E500
           | Some ticket \<Rightarrow>
               (let tieneAcceso =
                      (u_rol usuario = ADMIN \<or>
                       (u_rol usuario = JEFE_DEPARTAMENTO \<and>
                          Some (t_departamentoId ticket) = u_departamentoId usuario) \<or>
                       (u_rol usuario = AGENTE \<and> t_agenteId ticket = Some (u_id usuario)) \<or>
                       (u_rol usuario = CLIENTE \<and> t_creadorId ticket = u_id usuario \<and>
                          \<not> c_esInterno comentario))
                in if \<not> tieneAcceso then Inl E403 else Inr comentario)))"

section \<open>Routes (routes/tickets.js, routes/comentarios.js)\<close>

text \<open>
  A route is its chain of middleware, in the order of the router, and then the
  handler: the validation (400), \<open>authorize\<close>, \<open>verifyOwnership('ticket')\<close>. The
  logging middleware changes nothing and is left out, and so are the \<open>trim()\<close> that
  the validation applies to the text fields and the middleware that app.js mounts
  before the routers. \<open>req.usuario\<close> is the active user that \<open>authenticate\<close> loaded.
\<close>

definition ruta_obtenerTicketPorId :: "Usuario \<Rightarrow> string \<Rightarrow> prisma \<Rightarrow> http_error + ticket_detalle" where
  "ruta_obtenerTicketPorId usuario i d =
     (if \<not> isUUID i then Inl E400
      else case verifyOwnership ''ticket'' usuario i d of
             Inl e \<Rightarrow> Inl e
           | Inr resource \<Rightarrow> obtenerTicketPorId i d)"

definition ticketValidation_update :: "string \<Rightarrow> ticket_data \<Rightarrow> bool" where
  "ticketValidation_update i body =
     (isUUID i \<and>
      opcional (\<lambda>a. 5 \<le> length a \<and> length a \<le> 200) (d_asunto body) \<and>
      opcional (\<lambda>a. 10 \<le> length a \<and> length a \<le> 2000) (d_descripcion body))"

definition ruta_actualizarTicket ::
  "Usuario \<Rightarrow> string \<Rightarrow> ticket_data \<Rightarrow> prisma \<Rightarrow> (http_error + Ticket) \<times> prisma" where
  "ruta_actualizarTicket usuario i body d =
     (if \<not> ticketValidation_update i body then (Inl E400, d)
      else case authorize [ADMIN, JEFE_DEPARTAMENTO] usuario of
             Some e \<Rightarrow> (Inl e, d)
           | None \<Rightarrow>
               (case verifyOwnership ''ticket'' usuario i d of
                  Inl e \<Rightarrow> (Inl e, d)
                | Inr resource \<Rightarrow> actualizarTicket i body d))"

definition ruta_asignarTicket ::
  "Usuario \<Rightarrow> string \<Rightarrow> string \<Rightarrow> nat \<Rightarrow> prisma \<Rightarrow> (http_error + Ticket) \<times> prisma" where
  "ruta_asignarTicket usuario i agenteId ahora d =
     (if \<not> (isUUID i \<and> isUUID agenteId) then (Inl E400, d)
      else case authorize [ADMIN, JEFE_DEPARTAMENTO] usuario of
             Some e \<Rightarrow> (Inl e, d)
           | None \<Rightarrow> asignarTicket i agenteId ahora d)"

definition ticketValidation_updateStatus :: "string \<Rightarrow> string \<Rightarrow> string option \<Rightarrow> bool" where
  "ticketValidation_updateStatus i estado comentario =
     (isUUID i \<and> estadoDe estado \<noteq> None \<and> opcional (\<lambda>c. length c \<le> 500) comentario)"

definition ruta_cambiarEstado ::
  "Usuario \<Rightarrow> string \<Rightarrow> string \<Rightarrow> string option \<Rightarrow> nat \<Rightarrow> prisma \<Rightarrow> (http_error + Ticket) \<times> prisma" where
  "ruta_cambiarEstado usuario i estado comentario ahora d =
     (if \<not> ticketValidation_updateStatus i estado comentario then (Inl E400, d)
      else case verifyOwnership ''ticket'' usuario i d of
             Inl e \<Rightarrow> (Inl e, d)
           | Inr resource \<Rightarrow> cambiarEstado i estado comentario ahora d)"

text \<open>Thirty days, in milliseconds.\<close>

definition maxPastDays_ms :: nat where
  "maxPastDays_ms = 30 * 24 * 60 * 60 * 1000"

definition ticketValidation_addWorkLog :: "string \<Rightarrow> string \<Rightarrow> real \<Rightarrow> nat option \<Rightarrow> nat \<Rightarrow> bool" where
  "ticketValidation_addWorkLog i descripcion horas fechaTrabajo ahora =
     (isUUID i \<and> 10 \<le> length descripcion \<and> length descripcion \<le> 1000 \<and>
      1 / 10 \<le> horas \<and> horas \<le> 24 \<and>
      opcional (\<lambda>f. f \<le> ahora \<and> ahora \<le> f + maxPastDays_ms) fechaTrabajo)"

definition ruta_agregarRegistroTrabajo ::
  "Usuario \<Rightarrow> string \<Rightarrow> string \<Rightarrow> real \<Rightarrow> nat option \<Rightarrow> nat \<Rightarrow> prisma \<Rightarrow>
     (http_error + RegistroTrabajo) \<times> prisma" where
  "ruta_agregarRegistroTrabajo usuario i descripcion horas fechaTrabajo ahora d =
     (if \<not> ticketValidation_addWorkLog i descripcion horas fechaTrabajo ahora then (Inl E400, d)
      else case authorize [AGENTE, JEFE_DEPARTAMENTO] usuario of
             Some e \<Rightarrow> (Inl e, d)
           | None \<Rightarrow>
               (case verifyOwnership ''ticket'' usuario i d of
                  Inl e \<Rightarrow> (Inl e, d)
                | Inr resource \<Rightarrow>
                    agregarRegistroTrabajo i usuario descripcion horas fechaTrabajo ahora d))"

definition ruta_reabrirTicket ::
  "Usuario \<Rightarrow> string \<Rightarrow> nat \<Rightarrow> prisma \<Rightarrow> (http_error + Ticket) \<times> prisma" where
  "ruta_reabrirTicket usuario i ahora d =
     (if \<not> isUUID i then (Inl E400, d)
      else case authorize [ADMIN, JEFE_DEPARTAMENTO] usuario of
             Some e \<Rightarrow> (Inl e, d)
           | None \<Rightarrow>
               (case verifyOwnership ''ticket'' usuario i d of
                  Inl e \<Rightarrow> (Inl e, d)
                | Inr resource \<Rightarrow> reabrirTicket i usuario ahora d))"

definition ruta_cambioEstadoMasivo ::
  "Usuario \<Rightarrow> string list \<Rightarrow> string \<Rightarrow> nat \<Rightarrow> prisma \<Rightarrow> (http_error + nat) \<times> prisma" where
  "ruta_cambioEstadoMasivo usuario ticketIds estado ahora d =
     (if \<not> (ticketIds \<noteq> [] \<and> list_all isUUID ticketIds \<and> estadoDe estado \<noteq> None) then (Inl E400, d)
      else case authorize [ADMIN, JEFE_DEPARTAMENTO] usuario of
             Some e \<Rightarrow> (Inl e, d)
           | None \<Rightarrow> cambioEstadoMasivo ticketIds estado ahora d)"

definition ruta_asignacionMasiva ::
  "Usuario \<Rightarrow> string list \<Rightarrow> string \<Rightarrow> prisma \<Rightarrow> (http_error + nat) \<times> prisma" where
  "ruta_asignacionMasiva usuario ticketIds agenteId d =
     (if \<not> (ticketIds \<noteq> [] \<and> list_all isUUID ticketIds \<and> isUUID agenteId) then (Inl E400, d)
      else case authorize [ADMIN, JEFE_DEPARTAMENTO] usuario of
             Some e \<Rightarrow> (Inl e, d)
           | None \<Rightarrow> asignacionMasiva ticketIds agenteId d)"

text \<open>\<open>GET /api/comentarios/:id\<close>\<close>

definition ruta_obtenerComentarioPorId :: "Usuario \<Rightarrow> string \<Rightarrow> prisma \<Rightarrow> http_error + Comentario" where
  "ruta_obtenerComentarioPorId usuario i d =
     (if \<not> isUUID i then Inl E400 else obtenerComentarioPorId i usuario d)"

section \<open>Properties of the ledgers\<close>

text \<open>
  The history of a ticket in the order of its timestamps, and what it is for it to be
  a connected chain: the first entry has no previous status, and each later entry's
  previous status is the new status of the entry before it.
\<close>

definition historial_de :: "prisma \<Rightarrow> string \<Rightarrow> HistorialEstado list" where
  "historial_de d i =
     ordenar (\<lambda>a b. h_cambiadoEn a \<le> h_cambiadoEn b)
       (filter (\<lambda>h. h_ticketId h = i) (historialEstados d))"

fun cadena :: "EstadoTicket option \<Rightarrow> HistorialEstado list \<Rightarrow> bool" where
  "cadena previo [] = True"
| "cadena previo (h # hs) = (h_estadoAnterior h = previo \<and> cadena (Some (h_estadoNuevo h)) hs)"

text \<open>The hours of the work log entries of a ticket.\<close>

definition horas_registradas :: "prisma \<Rightarrow> string \<Rightarrow> real" where
  "horas_registradas d i =
     sum_list (map r_horas (filter (\<lambda>r. r_ticketId r = i) (registrosTrabajo d)))"

section \<open>A department with its users\<close>

definition id_admin :: string where "id_admin = ''a0000000-0000-4000-8000-000000000001''"
definition id_jefe :: string where "id_jefe = ''b0000000-0000-4000-8000-000000000001''"
definition id_agente1 :: string where "id_agente1 = ''c0000000-0000-4000-8000-000000000001''"
definition id_agente2 :: string where "id_agente2 = ''c0000000-0000-4000-8000-000000000002''"
definition id_cliente :: string where "id_cliente = ''d0000000-0000-4000-8000-000000000001''"
definition id_depto :: string where "id_depto = ''e0000000-0000-4000-8000-000000000001''"
definition id_categoria :: string where "id_categoria = ''f0000000-0000-4000-8000-000000000001''"
definition id_ticket1 :: string where "id_ticket1 = ''10000000-0000-4000-8000-000000000001''"
definition id_ticket2 :: string where "id_ticket2 = ''10000000-0000-4000-8000-000000000002''"
definition id_ticket3 :: string where "id_ticket3 = ''10000000-0000-4000-8000-000000000003''"
definition id_comentario1 :: string where "id_comentario1 = ''20000000-0000-4000-8000-000000000001''"

definition ej_admin :: Usuario where
  "ej_admin = \<lparr> u_id = id_admin, u_email = ''admin@helpdesk.test'', u_nombreCompleto = ''Ana'',
     u_rol = ADMIN, u_estaActivo = True, u_departamentoId = None \<rparr>"

definition ej_jefe :: Usuario where
  "ej_jefe = \<lparr> u_id = id_jefe, u_email = ''jefe@helpdesk.test'', u_nombreCompleto = ''Julia'',
     u_rol = JEFE_DEPARTAMENTO, u_estaActivo = True, u_departamentoId = Some id_depto \<rparr>"

definition ej_agente1 :: Usuario where
  "ej_agente1 = \<lparr> u_id = id_agente1, u_email = ''agente1@helpdesk.test'', u_nombreCompleto = ''Beto'',
     u_rol = AGENTE, u_estaActivo = True, u_departamentoId = Some id_depto \<rparr>"

definition ej_agente2 :: Usuario where
  "ej_agente2 = \<lparr> u_id = id_agente2, u_email = ''agente2@helpdesk.test'', u_nombreCompleto = ''Carla'',
     u_rol = AGENTE, u_estaActivo = True, u_departamentoId = Some id_depto \<rparr>"

definition ej_cliente :: Usuario where
  "ej_cliente = \<lparr> u_id = id_cliente, u_email = ''cliente@helpdesk.test'', u_nombreCompleto = ''Dora'',
     u_rol = CLIENTE, u_estaActivo = True, u_departamentoId = None \<rparr>"

text \<open>The database before the first ticket.\<close>

definition ej_inicial :: prisma where
  "ej_inicial = \<lparr> usuarios = [ej_admin, ej_jefe, ej_agente1, ej_agente2, ej_cliente],
     departamentos = [id_depto], categorias = [id_categoria], tickets = [],
     comentarios = [], historialEstados = [], registrosTrabajo = [] \<rparr>"

definition ej_body :: ticket_body where
  "ej_body = \<lparr> b_asunto = ''Impresora'', b_descripcion = ''La impresora no imprime'',
     b_prioridad = None, b_departamentoId = id_depto, b_categoriaId = id_categoria \<rparr>"

text \<open>A ticket of the client, with the status and the assignee given.\<close>

definition ej_ticket :: "string \<Rightarrow> string \<Rightarrow> EstadoTicket \<Rightarrow> string option \<Rightarrow> Ticket" where
  "ej_ticket i numero estado agente =
     \<lparr> t_id = i, t_numeroTicket = numero, t_asunto = ''Impresora'',
       t_descripcion = ''La impresora no imprime'', t_estado = estado, t_prioridad = MEDIA,
       t_horasReales = None, t_fechaResolucion = None, t_fechaCierre = None, t_creadoEn = 1000,
       t_creadorId = id_cliente, t_agenteId = agente, t_departamentoId = id_depto,
       t_categoriaId = id_categoria \<rparr>"

definition ej_creacion :: "string \<Rightarrow> HistorialEstado" where
  "ej_creacion i = \<lparr> h_estadoAnterior = None, h_estadoNuevo = ABIERTO,
     h_comentario = Some ''Ticket creado'', h_cambiadoEn = 1000, h_ticketId = i \<rparr>"

definition ej_asignacion :: "string \<Rightarrow> string \<Rightarrow> nat \<Rightarrow> HistorialEstado" where
  "ej_asignacion i nombre ahora = \<lparr> h_estadoAnterior = Some ABIERTO, h_estadoNuevo = EN_PROGRESO,
     h_comentario = Some (''Ticket asignado a '' @ nombre), h_cambiadoEn = ahora,
     h_ticketId = i \<rparr>"

text \<open>The first ticket, assigned to the first agent.\<close>

definition ej_asignado :: prisma where
  "ej_asignado =
     ej_inicial\<lparr> tickets := [ej_ticket id_ticket1 ''2026-11-000001'' EN_PROGRESO (Some id_agente1)],
       historialEstados := [ej_creacion id_ticket1, ej_asignacion id_ticket1 ''Beto'' 2000] \<rparr>"

text \<open>The first ticket as \<open>crearTicket\<close> leaves it.\<close>

definition ej_abierto :: prisma where
  "ej_abierto =
     ej_inicial\<lparr> tickets := [ej_ticket id_ticket1 ''2026-11-000001'' ABIERTO None],
       historialEstados := [ej_creacion id_ticket1] \<rparr>"

text \<open>The first ticket, assigned to the second agent after the first.\<close>

definition ej_reasignado :: prisma where
  "ej_reasignado =
     ej_inicial\<lparr> tickets := [ej_ticket id_ticket1 ''2026-11-000001'' EN_PROGRESO (Some id_agente2)],
       historialEstados := [ej_creacion id_ticket1, ej_asignacion id_ticket1 ''Beto'' 2000,
         ej_asignacion id_ticket1 ''Carla'' 3000] \<rparr>"

text \<open>The first ticket, closed by its agent.\<close>

definition ej_cerrado :: prisma where
  "ej_cerrado =
     ej_inicial\<lparr> tickets :=
         [(ej_ticket id_ticket1 ''2026-11-000001'' CERRADO (Some id_agente1))
            \<lparr> t_fechaCierre := Some 3000 \<rparr>],
       historialEstados := [ej_creacion id_ticket1, ej_asignacion id_ticket1 ''Beto'' 2000,
         \<lparr> h_estadoAnterior = Some EN_PROGRESO, h_estadoNuevo = CERRADO,
           h_comentario = Some ''Estado cambiado a CERRADO'', h_cambiadoEn = 3000,
           h_ticketId = id_ticket1 \<rparr>] \<rparr>"

text \<open>Two tickets, one for each agent.\<close>

definition ej_dos_tickets :: prisma where
  "ej_dos_tickets =
     ej_inicial\<lparr> tickets := [ej_ticket id_ticket1 ''2026-11-000001'' EN_PROGRESO (Some id_agente1),
         ej_ticket id_ticket2 ''2026-11-000002'' EN_PROGRESO (Some id_agente2)],
       historialEstados := [ej_creacion id_ticket1, ej_creacion id_ticket2,
         ej_asignacion id_ticket1 ''Beto'' 2000, ej_asignacion id_ticket2 ''Carla'' 2000] \<rparr>"

text \<open>The first ticket with an internal comment of its agent.\<close>

definition ej_comentario_interno :: Comentario where
  "ej_comentario_interno = \<lparr> c_id = id_comentario1, c_contenido = ''Nota interna'',
     c_esInterno = True, c_creadoEn = 2500, c_autorId = id_agente1, c_ticketId = id_ticket1 \<rparr>"

definition ej_con_interno :: prisma where
  "ej_con_interno = ej_asignado\<lparr> comentarios := [ej_comentario_interno] \<rparr>"

text \<open>A month in which the sequence has passed 999999.\<close>

definition ej_lleno :: prisma where
  "ej_lleno =
     ej_inicial\<lparr> tickets := [ej_ticket id_ticket1 ''2026-11-999999'' ABIERTO None,
         ej_ticket id_ticket2 ''2026-11-1000000'' ABIERTO None],
       historialEstados := [ej_creacion id_ticket1, ej_creacion id_ticket2] \<rparr>"

definition sin_filtros :: ticket_query where
  "sin_filtros = \<lparr> q_page = None, q_limit = None, q_estado = None, q_prioridad = None,
     q_departamentoId = None, q_categoriaId = None, q_agenteId = None, q_buscar = None \<rparr>"

section \<open>Theorems\<close>

lemmas ids = id_admin_def id_jefe_def id_agente1_def id_agente2_def id_cliente_def id_depto_def
  id_categoria_def id_ticket1_def id_ticket2_def id_ticket3_def id_comentario1_def

lemma recurso_encontrado_Some: "recurso_encontrado (Some r) = Inr r"
  by (simp add: recurso_encontrado_def)

lemma recurso_encontrado_None: "recurso_encontrado None = Inl E404"
  by (simp add: recurso_encontrado_def)

lemmas usuarios_ej = ej_admin_def ej_jefe_def ej_agente1_def ej_agente2_def ej_cliente_def

lemma isUUID_ids:
  "isUUID id_admin" "isUUID id_jefe" "isUUID id_agente1" "isUUID id_agente2" "isUUID id_cliente"
  "isUUID id_depto" "isUUID id_categoria" "isUUID id_ticket1" "isUUID id_ticket2"
  "isUUID id_ticket3" "isUUID id_comentario1"
  by (simp_all add: ids isUUID_def esHex_def)

lemma construir_where_sin_filtros:
  "construir_where usuario sin_filtros = filtros_por_rol usuario where_vacio"
  by (simp add: construir_where_def filtros_adicionales_def sin_filtros_def poner_def
      poner_cadena_def)

subsection \<open>Shared facts about the writes\<close>

lemma t_id_aplicar: "t_id (aplicar dat t) = t_id t"
  by (simp add: aplicar_def)

lemma find_map_mismo_id:
  "find (\<lambda>t. t_id t = i) (map (\<lambda>x. if t_id x = i then aplicar dat x else x) xs) =
     map_option (aplicar dat) (find (\<lambda>t. t_id t = i) xs)"
  by (induction xs) (simp_all add: t_id_aplicar)

lemma ticket_update_existente:
  assumes "ticket_findUnique d i = Some t" and "agente_valido d dat"
  shows "ticket_update d i dat =
     Some (aplicar dat t,
       d\<lparr> tickets := map (\<lambda>x. if t_id x = i then aplicar dat x else x) (tickets d) \<rparr>)"
  using assms by (simp add: ticket_update_def)

lemma ticket_findUnique_tras_update:
  "ticket_findUnique
     (d\<lparr> tickets := map (\<lambda>x. if t_id x = i then aplicar dat x else x) (tickets d) \<rparr>) i =
     map_option (aplicar dat) (ticket_findUnique d i)"
  by (simp add: ticket_findUnique_def find_map_mismo_id)

lemma agente_findFirst_existe:
  assumes "agente_findFirst d a = Some u"
  shows "existe_usuario d a"
proof -
  from assms obtain k where "k < length (usuarios d)" and "u_id (usuarios d ! k) = a"
    by (auto simp add: agente_findFirst_def find_Some_iff)
  then have "\<exists>x \<in> set (usuarios d). u_id x = a"
    using nth_mem by blast
  then show ?thesis
    by (auto simp add: existe_usuario_def find_None_iff)
qed

lemma aplicar_asignacion:
  "aplicar (sin_datos\<lparr> d_agenteId := Some (Some a), d_estado := Some EN_PROGRESO \<rparr>) x =
     x\<lparr> t_estado := EN_PROGRESO, t_agenteId := Some a \<rparr>"
  by (simp add: aplicar_def sin_datos_def)

lemma estadoDe_estadosValidos: "(estadoDe s \<noteq> None) = (s \<in> set (map fst estadosValidos))"
  by (simp add: estadoDe_def map_of_eq_None_iff)

subsection \<open>The walk of the first ticket\<close>

text \<open>
  The databases named above are the ones the handlers produce: a client creates the
  first ticket in November 2026, the department head assigns it to the first agent and
  then to the second; or the first agent closes it.
\<close>

lemma paso_crear:
  "crearTicket 2026 10 id_ticket1 1000 ej_cliente ej_body ej_inicial =
     (Inr (ej_ticket id_ticket1 ''2026-11-000001'' ABIERTO None), ej_abierto)"
  by code_simp

lemma paso_asignar:
  "ruta_asignarTicket ej_jefe id_ticket1 id_agente1 2000 ej_abierto =
     (Inr (ej_ticket id_ticket1 ''2026-11-000001'' EN_PROGRESO (Some id_agente1)), ej_asignado)"
  by code_simp

lemma paso_cerrar:
  "ruta_cambiarEstado ej_agente1 id_ticket1 ''CERRADO'' None 3000 ej_asignado =
     (Inr ((ej_ticket id_ticket1 ''2026-11-000001'' CERRADO (Some id_agente1))
             \<lparr> t_fechaCierre := Some 3000 \<rparr>), ej_cerrado)"
  by code_simp

subsection \<open>Status changes and the history\<close>

text \<open>
  C1 says that every operation that changes the status of a ticket appends exactly one
  history entry, and that no exposed operation sets the status without one. On the
  first ticket, open and with its creation entry as its whole history, the bulk status
  route, the update route and the bulk assignment route each change the status and
  leave the history as it was: the database they return differs from the one they
  received in the table of tickets only.
\<close>

theorem cambio_de_estado_sin_historial:
  "ruta_cambioEstadoMasivo ej_jefe [id_ticket1] ''CERRADO'' 5000 ej_abierto =
     (Inr 1, ej_abierto\<lparr> tickets :=
        [(ej_ticket id_ticket1 ''2026-11-000001'' CERRADO None)\<lparr> t_fechaCierre := Some 5000 \<rparr>] \<rparr>) \<and>
   ruta_actualizarTicket ej_jefe id_ticket1 (sin_datos\<lparr> d_estado := Some CERRADO \<rparr>) ej_abierto =
     (Inr (ej_ticket id_ticket1 ''2026-11-000001'' CERRADO None),
      ej_abierto\<lparr> tickets := [ej_ticket id_ticket1 ''2026-11-000001'' CERRADO None] \<rparr>) \<and>
   ruta_asignacionMasiva ej_jefe [id_ticket1] id_agente1 ej_abierto =
     (Inr 1, ej_abierto\<lparr> tickets :=
        [ej_ticket id_ticket1 ''2026-11-000001'' EN_PROGRESO (Some id_agente1)] \<rparr>) \<and>
   historialEstados ej_abierto = [ej_creacion id_ticket1]"
  by code_simp

text \<open>
  C7 says that the history of a ticket, in the order of its timestamps, is a connected
  chain. \<open>asignarTicket\<close> reads the previous status from the row after the update, so
  it writes ABIERTO whatever the status was: after the second assignment of the first
  ticket the third entry goes from ABIERTO while the second ended in EN_PROGRESO.
\<close>

theorem historial_no_conectado_tras_reasignar:
  "crearTicket 2026 10 id_ticket1 1000 ej_cliente ej_body ej_inicial =
     (Inr (ej_ticket id_ticket1 ''2026-11-000001'' ABIERTO None), ej_abierto) \<and>
   ruta_asignarTicket ej_jefe id_ticket1 id_agente1 2000 ej_abierto =
     (Inr (ej_ticket id_ticket1 ''2026-11-000001'' EN_PROGRESO (Some id_agente1)), ej_asignado) \<and>
   ruta_asignarTicket ej_jefe id_ticket1 id_agente2 3000 ej_asignado =
     (Inr (ej_ticket id_ticket1 ''2026-11-000001'' EN_PROGRESO (Some id_agente2)), ej_reasignado) \<and>
   map (\<lambda>h. (h_estadoAnterior h, h_estadoNuevo h)) (historial_de ej_reasignado id_ticket1) =
     [(None, ABIERTO), (Some ABIERTO, EN_PROGRESO), (Some ABIERTO, EN_PROGRESO)] \<and>
   cadena None (historial_de ej_asignado id_ticket1) \<and>
   \<not> cadena None (historial_de ej_reasignado id_ticket1)"
  by code_simp


text \<open>
  The status handler does what C1 and C7 describe: for a ticket that exists and a status
  of the enum, it sets the status and appends one entry from the status the ticket had.
\<close>

lemma aplicar_datos_estado_id: "t_id (aplicar (datos_estado e ahora) x) = t_id x"
  by (simp add: t_id_aplicar)

lemma agente_valido_datos_estado: "agente_valido d (datos_estado e ahora)"
  by (simp add: agente_valido_def datos_estado_def sin_datos_def)

lemma cambiarEstado_una_entrada:
  assumes "ticket_findUnique d i = Some t" and "estadoDe estado = Some e"
  shows "cambiarEstado i estado comentario ahora d =
           (Inr (aplicar (datos_estado e ahora) t),
            d\<lparr> tickets := map (\<lambda>x. if t_id x = i then aplicar (datos_estado e ahora) x else x) (tickets d),
               historialEstados := historialEstados d @
                 [\<lparr> h_estadoAnterior = Some (t_estado t), h_estadoNuevo = e,
                    h_comentario = Some (comentario_o comentario (''Estado cambiado a '' @ estado)),
                    h_cambiadoEn = ahora, h_ticketId = i \<rparr>] \<rparr>) \<and>
         t_estado (aplicar (datos_estado e ahora) t) = e"
proof -
  let ?dat = "datos_estado e ahora"
  let ?d1 = "d\<lparr> tickets := map (\<lambda>x. if t_id x = i then aplicar ?dat x else x) (tickets d) \<rparr>"
  have upd: "ticket_update d i ?dat = Some (aplicar ?dat t, ?d1)"
    by (rule ticket_update_existente [OF assms(1) agente_valido_datos_estado])
  have existe: "ticket_findUnique ?d1 i \<noteq> None"
    using assms(1) by (simp add: ticket_findUnique_tras_update)
  have e: "t_estado (aplicar ?dat t) = e"
    by (simp add: aplicar_def datos_estado_def sin_datos_def)
  show ?thesis
    using assms upd existe e
    by (simp add: cambiarEstado_def historialEstado_create_def)
qed

text \<open>
  C5 says that only an ADMIN or a JEFE_DEPARTAMENTO can bring a closed ticket back to
  ABIERTO, and that anyone else gets an error and leaves the ticket as it is. The
  reopening route refuses the agent of the closed ticket with 403; the status route,
  which has \<open>verifyOwnership\<close> only, lets the same agent, and the client who created
  the ticket, set the status to ABIERTO.
\<close>

theorem agente_reabre_por_cambiarEstado:
  "u_rol ej_agente1 = AGENTE \<and> u_rol ej_cliente = CLIENTE \<and>
   map t_estado (tickets ej_cerrado) = [CERRADO] \<and>
   ruta_reabrirTicket ej_agente1 id_ticket1 4000 ej_cerrado = (Inl E403, ej_cerrado) \<and>
   ruta_cambiarEstado ej_agente1 id_ticket1 ''ABIERTO'' None 4000 ej_cerrado =
     (Inr ((ej_ticket id_ticket1 ''2026-11-000001'' ABIERTO (Some id_agente1))
             \<lparr> t_fechaCierre := Some 3000 \<rparr>),
      ej_cerrado\<lparr> tickets :=
          [(ej_ticket id_ticket1 ''2026-11-000001'' ABIERTO (Some id_agente1))
             \<lparr> t_fechaCierre := Some 3000 \<rparr>],
        historialEstados := historialEstados ej_cerrado @
          [\<lparr> h_estadoAnterior = Some CERRADO, h_estadoNuevo = ABIERTO,
             h_comentario = Some ''Estado cambiado a ABIERTO'', h_cambiadoEn = 4000,
             h_ticketId = id_ticket1 \<rparr>] \<rparr>) \<and>
   map_sum id t_estado (fst (ruta_cambiarEstado ej_cliente id_ticket1 ''ABIERTO'' None 4000 ej_cerrado)) =
     Inr ABIERTO \<and>
   map t_estado (tickets (snd (ruta_cambiarEstado ej_cliente id_ticket1 ''ABIERTO'' None 4000 ej_cerrado))) =
     [ABIERTO]"
  by code_simp

text \<open>The reopening route refuses every AGENTE and CLIENTE and writes nothing.\<close>

lemma reabrir_solo_admin_o_jefe:
  assumes "u_rol usuario = AGENTE \<or> u_rol usuario = CLIENTE"
  shows "ruta_reabrirTicket usuario i ahora d = (Inl (if isUUID i then E403 else E400), d)"
  using assms by (auto simp add: ruta_reabrirTicket_def authorize_def)

subsection \<open>What a user is shown\<close>

text \<open>
  C3 says that a CLIENTE never sees a comment flagged internal, through the fetch of a
  comment and the fetch of a ticket alike. The fetch of the comment answers 403; the
  fetch of the ticket, which the client created, returns the ticket with all of its
  comments, the internal one among them.
\<close>

theorem cliente_recibe_comentario_interno:
  "u_rol ej_cliente = CLIENTE \<and> c_esInterno ej_comentario_interno \<and>
   ruta_obtenerComentarioPorId ej_cliente id_comentario1 ej_con_interno = Inl E403 \<and>
   ruta_obtenerTicketPorId ej_cliente id_ticket1 ej_con_interno =
     Inr \<lparr> det_ticket = ej_ticket id_ticket1 ''2026-11-000001'' EN_PROGRESO (Some id_agente1),
           det_comentarios = [ej_comentario_interno],
           det_registrosTrabajo = [],
           det_historialEstados = [ej_asignacion id_ticket1 ''Beto'' 2000, ej_creacion id_ticket1] \<rparr>"
  by code_simp

text \<open>The fetch of a comment never gives an internal comment to a CLIENTE.\<close>

lemma cliente_no_obtiene_interno:
  assumes "u_rol usuario = CLIENTE" and "obtenerComentarioPorId i usuario d = Inr c"
  shows "\<not> c_esInterno c"
  using assms
  by (auto simp add: obtenerComentarioPorId_def Let_def split: option.splits if_splits)

text \<open>
  C4 says that the list an AGENTE gets holds only tickets assigned to that agent,
  whatever the filters. The filter \<open>agenteId\<close> of the query is written over the key
  that the role has set: the first agent, asking with the id of the second agent, gets
  the ticket of the second agent.
\<close>

theorem agente_lista_tickets_ajenos:
  "u_rol ej_agente1 = AGENTE \<and>
   ruta_obtenerTickets ej_agente1 (sin_filtros\<lparr> q_agenteId := Some id_agente2 \<rparr>) ej_dos_tickets =
     Inr ([ej_ticket id_ticket2 ''2026-11-000002'' EN_PROGRESO (Some id_agente2)], 1) \<and>
   t_agenteId (ej_ticket id_ticket2 ''2026-11-000002'' EN_PROGRESO (Some id_agente2)) \<noteq>
     Some (u_id ej_agente1) \<and>
   ruta_obtenerTickets ej_agente1 sin_filtros ej_dos_tickets =
     Inr ([ej_ticket id_ticket1 ''2026-11-000001'' EN_PROGRESO (Some id_agente1)], 1)"
  by code_simp

text \<open>
  Without the filter \<open>agenteId\<close> the key set by the role stands, and every ticket of
  the page is assigned to the agent, whatever the other filters.
\<close>

lemma set_insertar: "set (insertar antes x xs) = insert x (set xs)"
  by (induction xs) auto

lemma set_ordenar: "set (ordenar antes xs) = set xs"
  by (induction xs) (simp_all add: set_insertar)

lemma agente_sin_filtro_agenteId:
  assumes "u_rol usuario = AGENTE" and "q_agenteId q = None"
    and "t \<in> set (fst (obtenerTickets usuario q d))"
  shows "t_agenteId t = Some (u_id usuario)"
proof -
  have w: "w_agenteId (construir_where usuario q) = Some (u_id usuario)"
    using assms(1,2)
    by (simp add: construir_where_def filtros_adicionales_def filtros_por_rol_def where_vacio_def
        poner_cadena_def)
  from assms(3) have "t \<in> set (ordenar orden_tickets (filter (cumple (construir_where usuario q)) (tickets d)))"
    by (auto simp add: obtenerTickets_def ticket_findMany_def Let_def dest: in_set_takeD in_set_dropD)
  then have "cumple (construir_where usuario q) t"
    by (simp add: set_ordenar)
  with w show ?thesis
    by (simp add: cumple_def)
qed

subsection \<open>Hours\<close>

text \<open>
  C8 says that \<open>horasReales\<close> of a ticket is at all times the sum of the hours of its
  work log entries. The update route passes the body to the update as it came, so a
  body that names \<open>horasReales\<close> sets it: the first ticket then has five hours and no
  work log entry.
\<close>

theorem horasReales_sin_registros:
  "ruta_actualizarTicket ej_jefe id_ticket1
      (sin_datos\<lparr> d_horasReales := Some (Asignar (Some 5)) \<rparr>) ej_abierto =
     (Inr ((ej_ticket id_ticket1 ''2026-11-000001'' ABIERTO None)\<lparr> t_horasReales := Some 5 \<rparr>),
      ej_abierto\<lparr> tickets :=
        [(ej_ticket id_ticket1 ''2026-11-000001'' ABIERTO None)\<lparr> t_horasReales := Some 5 \<rparr>] \<rparr>) \<and>
   registrosTrabajo ej_abierto = [] \<and>
   horas_registradas
     (ej_abierto\<lparr> tickets :=
        [(ej_ticket id_ticket1 ''2026-11-000001'' ABIERTO None)\<lparr> t_horasReales := Some 5 \<rparr>] \<rparr>)
     id_ticket1 = 0"
  by (simp add: ruta_actualizarTicket_def ticketValidation_update_def isUUID_ids opcional_def
      sin_datos_def authorize_def ej_jefe_def verifyOwnership_def ticket_findUnique_def
      ej_abierto_def ej_inicial_def ej_ticket_def recurso_encontrado_def actualizarTicket_def
      ticket_update_def agente_valido_def aplicar_def aplicar_float_def horas_registradas_def)

text \<open>
  The work log handler keeps the two in step: it appends the entry and sends the same
  hours as an increment of \<open>horasReales\<close> (which stays \<open>null\<close> if it was \<open>null\<close>).
\<close>

lemma agregarRegistroTrabajo_incrementa:
  assumes "ticket_findUnique d i = Some t" and "existe_usuario d (u_id usuario)"
  shows "\<exists>r d'. agregarRegistroTrabajo i usuario descripcion horas fechaTrabajo ahora d = (Inr r, d') \<and>
           r_horas r = horas \<and> r_ticketId r = i \<and>
           registrosTrabajo d' = registrosTrabajo d @ [r] \<and>
           horas_registradas d' i = horas_registradas d i + horas \<and>
           ticket_findUnique d' i =
             Some (t\<lparr> t_horasReales := map_option (\<lambda>h. h + horas) (t_horasReales t) \<rparr>)"
proof -
  let ?r = "\<lparr> r_descripcion = descripcion, r_horas = horas,
      r_fechaTrabajo = (case fechaTrabajo of None \<Rightarrow> ahora | Some f \<Rightarrow> f),
      r_agenteId = u_id usuario, r_ticketId = i \<rparr>"
  let ?d1 = "d\<lparr> registrosTrabajo := registrosTrabajo d @ [?r] \<rparr>"
  let ?dat = "sin_datos\<lparr> d_horasReales := Some (Increment horas) \<rparr>"
  let ?d2 = "?d1\<lparr> tickets := map (\<lambda>x. if t_id x = i then aplicar ?dat x else x) (tickets ?d1) \<rparr>"
  have c: "registroTrabajo_create d ?r = Some ?d1"
    using assms by (simp add: registroTrabajo_create_def)
  have f1: "ticket_findUnique ?d1 i = Some t"
    using assms(1) by (simp add: ticket_findUnique_def)
  have v: "agente_valido ?d1 ?dat"
    by (simp add: agente_valido_def sin_datos_def)
  have upd: "ticket_update ?d1 i ?dat = Some (aplicar ?dat t, ?d2)"
    by (rule ticket_update_existente [OF f1 v])
  have a: "aplicar ?dat t = t\<lparr> t_horasReales := map_option (\<lambda>h. h + horas) (t_horasReales t) \<rparr>"
    by (simp add: aplicar_def sin_datos_def aplicar_float_def)
  have f2: "ticket_findUnique ?d2 i = Some (aplicar ?dat t)"
    using assms(1) by (simp add: ticket_findUnique_def find_map_mismo_id)
  have r: "agregarRegistroTrabajo i usuario descripcion horas fechaTrabajo ahora d = (Inr ?r, ?d2)"
    using c upd by (simp add: agregarRegistroTrabajo_def Let_def)
  have s: "horas_registradas ?d2 i = horas_registradas d i + horas"
    by (simp add: horas_registradas_def)
  show ?thesis
    using r s f2 a by (intro exI [of _ ?r] exI [of _ ?d2]) simp
qed

subsection \<open>Assignment\<close>

text \<open>
  C6, as the handler has it. For a ticket that exists and an agent that
  \<open>asignarTicket\<close> accepts (active, AGENTE or JEFE_DEPARTAMENTO), the handler sets
  the assignee and the status EN_PROGRESO and appends exactly one history entry, of
  this ticket and with EN_PROGRESO as the new status, whatever the status was. For an
  open ticket the entry goes from ABIERTO to EN_PROGRESO; for a ticket already
  EN_PROGRESO the row changes in its assignee only, and the entry is appended all the
  same.
\<close>

theorem asignarTicket_una_entrada:
  assumes "ticket_findUnique d i = Some t" and "agente_findFirst d agenteId = Some agente"
  shows "\<exists>h. asignarTicket i agenteId ahora d =
           (Inr (t\<lparr> t_estado := EN_PROGRESO, t_agenteId := Some agenteId \<rparr>),
            d\<lparr> tickets := map (\<lambda>x. if t_id x = i
                                     then x\<lparr> t_estado := EN_PROGRESO, t_agenteId := Some agenteId \<rparr>
                                     else x) (tickets d),
               historialEstados := historialEstados d @ [h] \<rparr>) \<and>
         h_ticketId h = i \<and> h_estadoNuevo h = EN_PROGRESO \<and>
         (t_estado t = ABIERTO \<longrightarrow> h_estadoAnterior h = Some ABIERTO) \<and>
         (t_estado t = EN_PROGRESO \<longrightarrow>
            t\<lparr> t_estado := EN_PROGRESO, t_agenteId := Some agenteId \<rparr> =
            t\<lparr> t_agenteId := Some agenteId \<rparr>)"
proof -
  let ?dat = "sin_datos\<lparr> d_agenteId := Some (Some agenteId), d_estado := Some EN_PROGRESO \<rparr>"
  let ?d1 = "d\<lparr> tickets := map (\<lambda>x. if t_id x = i then aplicar ?dat x else x) (tickets d) \<rparr>"
  let ?h = "\<lparr> h_estadoAnterior = Some ABIERTO, h_estadoNuevo = EN_PROGRESO,
      h_comentario = Some (''Ticket asignado a '' @ u_nombreCompleto agente),
      h_cambiadoEn = ahora, h_ticketId = i \<rparr>"
  have valido: "agente_valido d ?dat"
    using agente_findFirst_existe [OF assms(2)] by (simp add: agente_valido_def sin_datos_def)
  have upd: "ticket_update d i ?dat = Some (aplicar ?dat t, ?d1)"
    by (rule ticket_update_existente [OF assms(1) valido])
  have existe: "ticket_findUnique ?d1 i \<noteq> None"
    using assms(1) by (simp add: ticket_findUnique_tras_update)
  show ?thesis
    using assms(2) upd existe
    by (intro exI [of _ ?h])
       (simp add: asignarTicket_def historialEstado_create_def aplicar_asignacion)
qed

text \<open>The first assignment of the first ticket, which is open.\<close>

theorem asignarTicket_una_entrada_witness:
  "ticket_findUnique ej_abierto id_ticket1 = Some (ej_ticket id_ticket1 ''2026-11-000001'' ABIERTO None) \<and>
   agente_findFirst ej_abierto id_agente1 = Some ej_agente1 \<and>
   fst (asignarTicket id_ticket1 id_agente1 2000 ej_abierto) =
     Inr (ej_ticket id_ticket1 ''2026-11-000001'' EN_PROGRESO (Some id_agente1)) \<and>
   tickets (snd (asignarTicket id_ticket1 id_agente1 2000 ej_abierto)) =
     [ej_ticket id_ticket1 ''2026-11-000001'' EN_PROGRESO (Some id_agente1)] \<and>
   length (historialEstados (snd (asignarTicket id_ticket1 id_agente1 2000 ej_abierto))) = 2 \<and>
   h_estadoAnterior (last (historialEstados (snd (asignarTicket id_ticket1 id_agente1 2000 ej_abierto)))) =
     Some ABIERTO"
proof -
  have h1: "ticket_findUnique ej_abierto id_ticket1 =
      Some (ej_ticket id_ticket1 ''2026-11-000001'' ABIERTO None)"
    by code_simp
  have h2: "agente_findFirst ej_abierto id_agente1 = Some ej_agente1"
    by code_simp
  have e: "t_estado (ej_ticket id_ticket1 ''2026-11-000001'' ABIERTO None) = ABIERTO"
    by (simp add: ej_ticket_def)
  from asignarTicket_una_entrada [OF h1 h2, of 2000] e obtain h where
    r: "asignarTicket id_ticket1 id_agente1 2000 ej_abierto =
         (Inr ((ej_ticket id_ticket1 ''2026-11-000001'' ABIERTO None)
                 \<lparr> t_estado := EN_PROGRESO, t_agenteId := Some id_agente1 \<rparr>),
          ej_abierto\<lparr> tickets := map (\<lambda>x. if t_id x = id_ticket1
                 then x\<lparr> t_estado := EN_PROGRESO, t_agenteId := Some id_agente1 \<rparr> else x)
               (tickets ej_abierto),
             historialEstados := historialEstados ej_abierto @ [h] \<rparr>)"
    and a: "h_estadoAnterior h = Some ABIERTO"
    by auto
  show ?thesis
    using h1 h2 a unfolding r
    by (simp add: ej_abierto_def ej_inicial_def ej_ticket_def)
qed

text \<open>
  The second assignment finds the ticket EN_PROGRESO, and the history grows from two
  entries to three, not by none.
\<close>

theorem asignarTicket_en_progreso_counterexample:
  "ticket_findUnique ej_asignado id_ticket1 =
     Some (ej_ticket id_ticket1 ''2026-11-000001'' EN_PROGRESO (Some id_agente1)) \<and>
   asignarTicket id_ticket1 id_agente2 3000 ej_asignado =
     (Inr (ej_ticket id_ticket1 ''2026-11-000001'' EN_PROGRESO (Some id_agente2)), ej_reasignado) \<and>
   length (historialEstados ej_asignado) = 2 \<and>
   length (historialEstados ej_reasignado) = 3"
  by code_simp

subsection \<open>A ticket number that is taken\<close>

text \<open>
  C9, as the handler has it. When the number that \<open>generateTicketNumber\<close> returned
  is already the number of a ticket at the time of the insert, \<open>crearTicket\<close> does
  not generate another and does not try again: the exception of the insert goes to
  the \<open>catch\<close> block, the answer is 500, and the database is as it was (no ticket
  and no history entry are stored).
\<close>

theorem crearTicket_numero_repetido:
  assumes "numeroTicket \<in> set (map t_numeroTicket (tickets d))"
  shows "crearTicket_insertar numeroTicket nuevoId ahora usuario body d = (Inl E500, d) \<and>
         (ticketValidation_create body \<and> numeroTicket = generateTicketNumber year month d \<longrightarrow>
            crearTicket year month nuevoId ahora usuario body d = (Inl E500, d))"
proof (intro conjI impI)
  show ins: "crearTicket_insertar numeroTicket nuevoId ahora usuario body d = (Inl E500, d)"
    using assms by (simp add: crearTicket_insertar_def ticket_create_def Let_def)
  assume a: "ticketValidation_create body \<and> numeroTicket = generateTicketNumber year month d"
  then have "crearTicket year month nuevoId ahora usuario body d =
      crearTicket_insertar numeroTicket nuevoId ahora usuario body d"
    by (simp add: crearTicket_def)
  then show "crearTicket year month nuevoId ahora usuario body d = (Inl E500, d)"
    using ins by simp
qed

text \<open>
  After 999999 the next number has seven digits and sorts below 999999, so the
  following request generates it again and meets the unique constraint.
\<close>

theorem crearTicket_numero_repetido_witness:
  "generateTicketNumber 2026 10 ej_lleno = ''2026-11-1000000'' \<and>
   ''2026-11-1000000'' \<in> set (map t_numeroTicket (tickets ej_lleno)) \<and>
   ticketValidation_create ej_body \<and>
   crearTicket 2026 10 id_ticket3 1000 ej_cliente ej_body ej_lleno = (Inl E500, ej_lleno)"
proof -
  have u: "ultimoTicket ej_lleno ''2026-11-'' = Some ''2026-11-999999''"
    by (simp add: ultimoTicket_def ej_lleno_def ej_inicial_def ej_ticket_def)
  have p: "parseInt ''999999'' = Some 999999"
    by (simp add: parseInt_def esDigito_def valorDigito_def)
  have c: "cadena_de 2026 = ''2026''" "cadena_de 11 = ''11''" "cadena_de 1000000 = ''1000000''"
    by (simp_all add: cadena_de.simps digito_def)
  have g: "generateTicketNumber 2026 10 ej_lleno = ''2026-11-1000000''"
    by (simp add: generateTicketNumber_def padStart_def c u p)
  have m: "''2026-11-1000000'' \<in> set (map t_numeroTicket (tickets ej_lleno))"
    by (simp add: ej_lleno_def ej_inicial_def ej_ticket_def)
  have v: "ticketValidation_create ej_body"
    by (simp add: ticketValidation_create_def ej_body_def isUUID_ids)
  from crearTicket_numero_repetido [OF m, of id_ticket3 1000 ej_cliente ej_body 2026 10] g v
  have "crearTicket 2026 10 id_ticket3 1000 ej_cliente ej_body ej_lleno = (Inl E500, ej_lleno)"
    by simp
  with g m v show ?thesis
    by simp
qed

text \<open>
  Two requests that arrive together both read the last number while the month has no
  ticket, and both get 2026-11-000001. The first insert succeeds. The second meets the
  unique constraint and the request ends in 500 with nothing stored, although the
  number generated at that moment, 2026-11-000002, is free and its insert succeeds.
\<close>

theorem crearTicket_reintento_counterexample:
  "generateTicketNumber 2026 10 ej_inicial = ''2026-11-000001'' \<and>
   crearTicket_insertar ''2026-11-000001'' id_ticket1 1000 ej_cliente ej_body ej_inicial =
     (Inr (ej_ticket id_ticket1 ''2026-11-000001'' ABIERTO None), ej_abierto) \<and>
   crearTicket_insertar ''2026-11-000001'' id_ticket2 1000 ej_cliente ej_body ej_abierto =
     (Inl E500, ej_abierto) \<and>
   generateTicketNumber 2026 10 ej_abierto = ''2026-11-000002'' \<and>
   fst (crearTicket_insertar ''2026-11-000002'' id_ticket2 1000 ej_cliente ej_body ej_abierto) =
     Inr (ej_ticket id_ticket2 ''2026-11-000002'' ABIERTO None)"
  by code_simp

subsection \<open>Ownership of a single ticket\<close>

text \<open>
  C10. When the requested ticket does not exist, \<open>verifyOwnership\<close> answers 404 (not
  found) only for an ADMIN; for a JEFE_DEPARTAMENTO, an AGENTE and a CLIENTE the
  comparison of the role reads a field of the missing record before the check for
  existence runs, and the request ends in 500 (internal error).
\<close>

theorem verifyOwnership_ticket_inexistente:
  "ticket_findUnique d i = None \<Longrightarrow>
   verifyOwnership ''ticket'' usuario i d =
     (if u_rol usuario = ADMIN then Inl E404 else Inl E500)"
  by (simp add: verifyOwnership_def recurso_encontrado_def)

theorem verifyOwnership_ticket_inexistente_witness:
  "ticket_findUnique ej_inicial id_ticket1 = None \<and>
   verifyOwnership ''ticket'' ej_admin id_ticket1 ej_inicial = Inl E404 \<and>
   verifyOwnership ''ticket'' ej_jefe id_ticket1 ej_inicial = Inl E500 \<and>
   verifyOwnership ''ticket'' ej_agente1 id_ticket1 ej_inicial = Inl E500 \<and>
   verifyOwnership ''ticket'' ej_cliente id_ticket1 ej_inicial = Inl E500"
proof -
  have h: "ticket_findUnique ej_inicial id_ticket1 = None"
    by (simp add: ticket_findUnique_def ej_inicial_def)
  show ?thesis
    using h verifyOwnership_ticket_inexistente [OF h, of ej_admin]
      verifyOwnership_ticket_inexistente [OF h, of ej_jefe]
      verifyOwnership_ticket_inexistente [OF h, of ej_agente1]
      verifyOwnership_ticket_inexistente [OF h, of ej_cliente]
    by (simp add: usuarios_ej)
qed

text \<open>
  C2. For every user and every ticket that exists, \<open>verifyOwnership\<close> lets the user
  through exactly when the ticket satisfies the \<open>where\<close> object that \<open>obtenerTickets\<close>
  builds for the user's role (no filter of the query given), which is: ADMIN, every
  ticket; JEFE_DEPARTAMENTO, \<open>departamentoId\<close> equal to the user's; AGENTE, \<open>agenteId\<close>
  equal to the user's id; CLIENTE, \<open>creadorId\<close> equal to the user's id. A user who is
  not let through gets 403.
\<close>

theorem verifyOwnership_igual_que_filtro_por_rol:
  assumes "ticket_findUnique d i = Some t"
  shows "((verifyOwnership ''ticket'' usuario i d = Inr t) =
            cumple (construir_where usuario sin_filtros) t) \<and>
         (cumple (construir_where usuario sin_filtros) t =
            (case u_rol usuario of
               ADMIN \<Rightarrow> True
             | JEFE_DEPARTAMENTO \<Rightarrow> Some (t_departamentoId t) = u_departamentoId usuario
             | AGENTE \<Rightarrow> t_agenteId t = Some (u_id usuario)
             | CLIENTE \<Rightarrow> t_creadorId t = u_id usuario)) \<and>
         (verifyOwnership ''ticket'' usuario i d = Inr t \<or>
          verifyOwnership ''ticket'' usuario i d = Inl E403)"
  using assms
  by (cases "u_rol usuario"; cases "u_departamentoId usuario")
     (auto simp add: construir_where_sin_filtros verifyOwnership_def recurso_encontrado_def
        filtros_por_rol_def where_vacio_def cumple_def)

theorem verifyOwnership_igual_que_filtro_por_rol_witness:
  "ticket_findUnique ej_asignado id_ticket1 =
     Some (ej_ticket id_ticket1 ''2026-11-000001'' EN_PROGRESO (Some id_agente1)) \<and>
   verifyOwnership ''ticket'' ej_agente1 id_ticket1 ej_asignado =
     Inr (ej_ticket id_ticket1 ''2026-11-000001'' EN_PROGRESO (Some id_agente1)) \<and>
   cumple (construir_where ej_agente1 sin_filtros)
     (ej_ticket id_ticket1 ''2026-11-000001'' EN_PROGRESO (Some id_agente1)) \<and>
   verifyOwnership ''ticket'' ej_agente2 id_ticket1 ej_asignado = Inl E403 \<and>
   \<not> cumple (construir_where ej_agente2 sin_filtros)
     (ej_ticket id_ticket1 ''2026-11-000001'' EN_PROGRESO (Some id_agente1))"
proof -
  have h: "ticket_findUnique ej_asignado id_ticket1 =
      Some (ej_ticket id_ticket1 ''2026-11-000001'' EN_PROGRESO (Some id_agente1))"
    by (simp add: ticket_findUnique_def ej_asignado_def ej_inicial_def ej_ticket_def)
  have a2: "id_agente2 \<noteq> id_agente1"
    by (simp add: ids)
  show ?thesis
    using h a2 verifyOwnership_igual_que_filtro_por_rol [OF h, of ej_agente1]
      verifyOwnership_igual_que_filtro_por_rol [OF h, of ej_agente2]
    by (auto simp add: usuarios_ej ej_ticket_def)
qed

end
